theory Spec2Isabelle
  imports Complex_Main "HOL-Library.Product_Lexorder"
begin

section \<open>Data model\<close>

text \<open>
  The bot keeps its data in YAML documents that hold lists of dictionaries. A dictionary
  is modelled as a record; a key that the code reads with \<^verbatim>\<open>d.get(key, default)\<close> is an
  optional field, a key read with \<^verbatim>\<open>d[key]\<close> is a mandatory one. Python numbers that may be
  \<^verbatim>\<open>int\<close> or \<^verbatim>\<open>float\<close> (prices, totals, discounts) are rationals; counters and quantities
  are integers. Sums, differences and products are exact, as they are on Python integers;
  the average order value, which the code divides and rounds as a \<^verbatim>\<open>float\<close>, is rounded
  as a binary64 number (see \<open>py_round2\<close>).
\<close>

type_synonym money = rat

record cart_item =
  product_id :: int
  product_name :: string
  price :: money
  quantity :: int

record product =
  prod_id :: int
  prod_name :: string
  prod_price :: money
  prod_available :: "bool option"

record user =
  telegram_id :: int
  user_phone :: "string option"
  addresses :: "string list"
  bonus_points :: "int option"
  total_orders :: "int option"

record order =
  order_id :: int
  user_id :: int
  items :: "cart_item list"
  order_subtotal :: money
  order_delivery_cost :: money
  order_discount :: money
  order_promo_code :: "string option"
  order_total :: "money option"
  delivery_address :: "string option"
  order_phone :: "string option"
  payment_method :: string
  comment :: string
  status :: string
  created_at :: string
  delivered_at :: "string option"

record totals =
  subtotal :: money
  delivery_cost :: money
  discount :: money
  total :: money

section \<open>Order totals (order\_handlers.py)\<close>

text \<open>
  \<^verbatim>\<open>sum(item['price'] * item['quantity'] for item in cart)\<close>: the built-in starts from 0 and
  adds the terms from left to right.
\<close>

fun sum_from :: "money \<Rightarrow> cart_item list \<Rightarrow> money" where
  "sum_from acc [] = acc"
| "sum_from acc (item # rest) = sum_from (acc + price item * of_int (quantity item)) rest"

definition cart_sum :: "cart_item list \<Rightarrow> money" where
  "cart_sum cart = sum_from 0 cart"

definition calculate_order_totals :: "cart_item list \<Rightarrow> money \<Rightarrow> money \<Rightarrow> totals" where
  "calculate_order_totals cart dcost disc =
     (let sub = cart_sum cart;
          tot = sub + dcost - disc
      in \<lparr>subtotal = sub, delivery_cost = dcost, discount = disc, total = max 0 tot\<rparr>)"

section \<open>Working hours and order validation (order\_handlers.py)\<close>

text \<open>\<^verbatim>\<open>d.get(key, default)\<close> on an optional field.\<close>

definition dict_get :: "'a option \<Rightarrow> 'a \<Rightarrow> 'a" where
  "dict_get v d = (case v of None \<Rightarrow> d | Some x \<Rightarrow> x)"

text \<open>
  The part of \<^verbatim>\<open>config['delivery']\<close> that the order functions read. The nested
  dictionaries are flattened: a missing \<^verbatim>\<open>delivery\<close> or \<^verbatim>\<open>working_hours\<close> dictionary is the
  record whose fields are all \<open>None\<close>.
\<close>

record config =
  min_order_amount :: "money option"
  free_delivery_from :: "money option"
  cfg_delivery_cost :: "money option"
  working_hours_start :: "string option"
  working_hours_end :: "string option"

text \<open>
  A \<^verbatim>\<open>datetime.time\<close> is (hour, minute, second, microsecond), compared lexicographically.
\<close>

type_synonym pytime = "nat \<times> nat \<times> nat \<times> nat"

definition is_digit :: "char \<Rightarrow> bool" where
  "is_digit c = (48 \<le> (of_char c :: nat) \<and> (of_char c :: nat) \<le> 57)"

definition digit_val :: "char \<Rightarrow> nat" where
  "digit_val c = of_char c - 48"

text \<open>
  A field of one or two decimal digits with a value from \<open>lo\<close> to \<open>hi\<close>: what the
  directives \<^verbatim>\<open>%H\<close> (0 to 23), \<^verbatim>\<open>%M\<close> (0 to 59) and \<^verbatim>\<open>%m\<close> (1 to 12) of \<^verbatim>\<open>strptime\<close>
  accept on ASCII input.
\<close>

fun digits_field :: "nat \<Rightarrow> nat \<Rightarrow> string \<Rightarrow> nat option" where
  "digits_field lo hi [a] =
     (if is_digit a \<and> lo \<le> digit_val a then Some (digit_val a) else None)"
| "digits_field lo hi [a, b] =
     (if is_digit a \<and> is_digit b \<and> lo \<le> 10 * digit_val a + digit_val b
         \<and> 10 * digit_val a + digit_val b \<le> hi
      then Some (10 * digit_val a + digit_val b) else None)"
| "digits_field lo hi _ = None"

text \<open>
  \<^verbatim>\<open>datetime.strptime(s, '%H:%M').time()\<close>; \<open>None\<close> stands for the \<^verbatim>\<open>ValueError\<close> raised
  when the string does not match the format.
\<close>

definition strptime_HM :: "string \<Rightarrow> pytime option" where
  "strptime_HM s =
     (case dropWhile (\<lambda>c. c \<noteq> CHR '':'') s of
        [] \<Rightarrow> None
      | _ # ms \<Rightarrow>
          (case digits_field 0 23 (takeWhile (\<lambda>c. c \<noteq> CHR '':'') s) of
             None \<Rightarrow> None
           | Some h \<Rightarrow>
               (case digits_field 0 59 ms of
                  None \<Rightarrow> None
                | Some m \<Rightarrow> Some (h, m, 0, 0))))"

text \<open>
  \<open>now\<close> is the value of \<^verbatim>\<open>datetime.now().time()\<close>. The \<^verbatim>\<open>except ValueError\<close> branch
  returns \<open>True\<close>.
\<close>

definition is_order_within_working_hours :: "pytime \<Rightarrow> config \<Rightarrow> bool" where
  "is_order_within_working_hours now cfg =
     (let start_str = dict_get (working_hours_start cfg) ''10:00'';
          end_str = dict_get (working_hours_end cfg) ''23:00''
      in case strptime_HM start_str of
           None \<Rightarrow> True
         | Some start_time \<Rightarrow>
             (case strptime_HM end_str of
                None \<Rightarrow> True
              | Some end_time \<Rightarrow>
                  if start_time \<le> end_time
                  then start_time \<le> now \<and> now \<le> end_time
                  else now \<ge> start_time \<or> now \<le> end_time))"

text \<open>
  \<open>validate_order\<close> returns \<^verbatim>\<open>(is_valid, error_message)\<close>. The three messages are
  modelled by the constructors of \<open>rejection\<close>, which carry the values the message
  interpolates: the minimum order amount, and the configured opening and closing time.
\<close>

datatype rejection = EmptyCart | BelowMinimum money | OutsideHours string string

definition validate_order :: "pytime \<Rightarrow> cart_item list \<Rightarrow> config \<Rightarrow> bool \<times> rejection option" where
  "validate_order now cart cfg =
     (if cart = [] then (False, Some EmptyCart)
      else
        let sub = cart_sum cart;
            min_order = dict_get (min_order_amount cfg) 0
        in if sub < min_order then (False, Some (BelowMinimum min_order))
           else if \<not> is_order_within_working_hours now cfg
           then (False, Some (OutsideHours (dict_get (working_hours_start cfg) ''10:00'')
                                           (dict_get (working_hours_end cfg) ''23:00'')))
           else (True, None))"

section \<open>The entity store (data\_manager.py)\<close>

text \<open>
  Every method of \<^verbatim>\<open>DataManager\<close> loads a YAML document, works on it and saves it. The
  store is the content of the documents; a method that writes returns the new store.
  A missing document or collection is the empty list. A \<^verbatim>\<open>statistics\<close> dictionary that is
  missing is the record whose fields are all \<open>None\<close>.
\<close>

record statistics =
  stat_total_orders :: "int option"
  stat_total_revenue :: "money option"
  stat_average_order :: "money option"

record promo =
  code :: string
  active :: bool
  discount_percent :: "money option"
  discount_fixed :: "money option"
  min_order :: "money option"
  expiry_date :: string
  max_uses :: "int option"
  current_uses :: "int option"

record store =
  products :: "product list"
  users :: "user list"
  orders :: "order list"
  promocodes :: "promo list"
  stats :: statistics

text \<open>
  \<^verbatim>\<open>for x in xs: if P(x): <mutate x>; break\<close>: the first element that satisfies the test
  is changed, the others are left as they are.
\<close>

fun update_first :: "('a \<Rightarrow> bool) \<Rightarrow> ('a \<Rightarrow> 'a) \<Rightarrow> 'a list \<Rightarrow> 'a list" where
  "update_first P f [] = []"
| "update_first P f (x # xs) = (if P x then f x # xs else x # update_first P f xs)"

subsection \<open>Products and users\<close>

text \<open>\<^verbatim>\<open>next((p for p in products if p['id'] == product_id), None)\<close>\<close>

definition get_product :: "store \<Rightarrow> int \<Rightarrow> product option" where
  "get_product s pid = find (\<lambda>p. prod_id p = pid) (products s)"

definition get_user :: "store \<Rightarrow> int \<Rightarrow> user option" where
  "get_user s tid = find (\<lambda>u. telegram_id u = tid) (users s)"

text \<open>The dictionary of updates is the function that \<^verbatim>\<open>user.update(updates)\<close> applies.\<close>

definition update_user :: "store \<Rightarrow> int \<Rightarrow> (user \<Rightarrow> user) \<Rightarrow> store" where
  "update_user s tid updates =
     s\<lparr>users := update_first (\<lambda>u. telegram_id u = tid) updates (users s)\<rparr>"

definition add_bonus_points :: "store \<Rightarrow> int \<Rightarrow> int \<Rightarrow> store" where
  "add_bonus_points s tid points =
     (case get_user s tid of
        None \<Rightarrow> s
      | Some usr \<Rightarrow>
          let current_points = dict_get (bonus_points usr) 0
          in update_user s tid (\<lambda>u. u\<lparr>bonus_points := Some (current_points + points)\<rparr>))"

subsection \<open>Statistics\<close>

text \<open>
  The average is a Python \<^verbatim>\<open>float\<close>, an IEEE 754 binary64 number, and \<^verbatim>\<open>round\<close> rounds
  the binary number, not the exact quotient. \<open>round_half_even\<close> rounds a rational to the
  nearest integer, a tie going to the even neighbour.
\<close>

definition round_half_even :: "rat \<Rightarrow> int" where
  "round_half_even x =
     (let f = \<lfloor>x\<rfloor>; r = x - of_int f
      in if r < 1 / 2 then f else if 1 / 2 < r then f + 1 else if even f then f else f + 1)"

text \<open>\<^verbatim>\<open>n.bit_length()\<close> of a positive integer, 0 otherwise.\<close>

function bit_length :: "int \<Rightarrow> int" where
  "bit_length n = (if 0 < n then bit_length (n div 2) + 1 else 0)"
  by pat_completeness auto
termination
  by (relation "measure nat") auto

declare bit_length.simps [simp del]

text \<open>
  The binary exponent of a rational \<open>q \<noteq> 0\<close>: the \<open>e\<close> with \<open>2 powi e \<le> \<bar>q\<bar>\<close> and \<open>\<bar>q\<bar> < 2 powi (e + 1)\<close>, and
  \<open>-1022\<close> below the normal range.
\<close>

definition float_exponent :: "rat \<Rightarrow> int" where
  "float_exponent q =
     max (- 1022)
       (if 1 \<le> \<bar>q\<bar> then bit_length \<lfloor>\<bar>q\<bar>\<rfloor> - 1 else - bit_length (\<lceil>1 / \<bar>q\<bar>\<rceil> - 1))"

text \<open>
  The binary64 number nearest to a rational, a tie going to the even significand of 53
  bits. This is the result of \<^verbatim>\<open>a / b\<close> on integers \<open>a\<close> and \<open>b\<close> with quotient \<open>q\<close>
  (quotients of \<open>2 ^ 1024\<close> and more, where Python raises \<^verbatim>\<open>OverflowError\<close>, are not
  modelled).
\<close>

definition binary64 :: "rat \<Rightarrow> rat" where
  "binary64 q =
     (if q = 0 then 0
      else let e = float_exponent q
           in of_int (round_half_even (q * 2 powi (52 - e))) * 2 powi (e - 52))"

text \<open>
  \<^verbatim>\<open>round(x, 2)\<close> for the float of the quotient \<open>x\<close>: Python rounds the exact value of the
  binary number to two decimal places, a tie going to the even neighbour. The result is
  the decimal number that the YAML document then shows.
\<close>

definition py_round2 :: "rat \<Rightarrow> rat" where
  "py_round2 x = of_int (round_half_even (binary64 x * 100)) / 100"

text \<open>The method \<^verbatim>\<open>_update_statistics\<close>.\<close>

definition update_statistics :: "store \<Rightarrow> money \<Rightarrow> store" where
  "update_statistics s order_tot =
     (let total_orders' = dict_get (stat_total_orders (stats s)) 0 + 1;
          total_revenue' = dict_get (stat_total_revenue (stats s)) 0 + order_tot;
          average_order = (if total_orders' > 0 then total_revenue' / of_int total_orders' else 0)
      in s\<lparr>stats := \<lparr>stat_total_orders = Some total_orders',
                      stat_total_revenue = Some total_revenue',
                      stat_average_order = Some (py_round2 average_order)\<rparr>\<rparr>)"

subsection \<open>Orders\<close>

text \<open>\<^verbatim>\<open>max(xs, default=d)\<close>\<close>

definition max_default :: "int list \<Rightarrow> int \<Rightarrow> int" where
  "max_default xs d = (case xs of [] \<Rightarrow> d | y # ys \<Rightarrow> fold max ys y)"

text \<open>
  \<^verbatim>\<open>int(x)\<close> truncates towards zero. The bonus \<^verbatim>\<open>int(total * 0.01)\<close> is computed on
  the exact product with \<open>1 / 100\<close>.
\<close>

definition py_int :: "rat \<Rightarrow> int" where
  "py_int x = (if 0 \<le> x then \<lfloor>x\<rfloor> else \<lceil>x\<rceil>)"

text \<open>
  \<open>create_order\<close> overwrites the keys \<^verbatim>\<open>id\<close>, \<^verbatim>\<open>status\<close> and \<^verbatim>\<open>created_at\<close> of the
  dictionary it is given. \<open>now\<close> is the formatted time stamp
  \<^verbatim>\<open>datetime.now().strftime('%Y-%m-%d %H:%M:%S')\<close>.
\<close>

definition create_order :: "string \<Rightarrow> store \<Rightarrow> order \<Rightarrow> int \<times> store" where
  "create_order now s order_data =
     (let oid = max_default (map order_id (orders s)) 0 + 1;
          od = order_data\<lparr>order_id := oid, status := ''new'', created_at := now\<rparr>;
          s1 = s\<lparr>orders := orders s @ [od]\<rparr>;
          s2 = (case get_user s1 (user_id od) of
                  None \<Rightarrow> s1
                | Some usr \<Rightarrow>
                    let s' = update_user s1 (user_id od)
                               (\<lambda>u. u\<lparr>total_orders := Some (dict_get (total_orders usr) 0 + 1)\<rparr>);
                        bonus = py_int (dict_get (order_total od) 0 * (1 / 100))
                    in if bonus > 0 then add_bonus_points s' (user_id od) bonus else s')
      in (oid, update_statistics s2 (dict_get (order_total od) 0)))"

definition get_order :: "store \<Rightarrow> int \<Rightarrow> order option" where
  "get_order s oid = find (\<lambda>r. order_id r = oid) (orders s)"

definition update_order_status :: "string \<Rightarrow> store \<Rightarrow> int \<Rightarrow> string \<Rightarrow> store" where
  "update_order_status now s oid st =
     s\<lparr>orders := update_first (\<lambda>r. order_id r = oid)
                    (\<lambda>r. if st = ''delivered''
                          then r\<lparr>status := st, delivered_at := Some now\<rparr>
                          else r\<lparr>status := st\<rparr>)
                    (orders s)\<rparr>"

subsection \<open>Promo codes\<close>

text \<open>
  \<^verbatim>\<open>str.upper()\<close> on ASCII text: the letters a to z are mapped to A to Z, every other
  character is kept. Python also maps letters outside ASCII; codes that contain such
  letters are outside this model.
\<close>

definition upper_char :: "char \<Rightarrow> char" where
  "upper_char c =
     (case map_of (zip ''abcdefghijklmnopqrstuvwxyz'' ''ABCDEFGHIJKLMNOPQRSTUVWXYZ'') c of
        None \<Rightarrow> c
      | Some u \<Rightarrow> u)"

definition py_upper :: "string \<Rightarrow> string" where
  "py_upper s = map upper_char s"

text \<open>
  A \<^verbatim>\<open>datetime\<close> is a date (year, month, day) followed by a time of day, compared
  lexicographically.
\<close>

type_synonym pydate = "nat \<times> nat \<times> nat"

type_synonym pydatetime = "pydate \<times> pytime"

definition is_leap :: "nat \<Rightarrow> bool" where
  "is_leap y = (y mod 4 = 0 \<and> (y mod 100 \<noteq> 0 \<or> y mod 400 = 0))"

definition days_in_month :: "nat \<Rightarrow> nat \<Rightarrow> nat" where
  "days_in_month y m =
     (if m = 2 then (if is_leap y then 29 else 28)
      else if m = 4 \<or> m = 6 \<or> m = 9 \<or> m = 11 then 30 else 31)"

text \<open>The directive \<^verbatim>\<open>%Y\<close>: four digits.\<close>

fun year_field :: "string \<Rightarrow> nat option" where
  "year_field [a, b, c, d] =
     (if is_digit a \<and> is_digit b \<and> is_digit c \<and> is_digit d
      then Some (1000 * digit_val a + 100 * digit_val b + 10 * digit_val c + digit_val d)
      else None)"
| "year_field _ = None"

text \<open>The directive \<^verbatim>\<open>%d\<close>: 1 to 31 in one or two digits, or a space and a digit from 1 to 9.\<close>

definition day_field :: "string \<Rightarrow> nat option" where
  "day_field s =
     (case s of
        [a, b] \<Rightarrow> if a = CHR '' '' then digits_field 1 9 [b] else digits_field 1 31 s
      | _ \<Rightarrow> digits_field 1 31 s)"

text \<open>
  \<^verbatim>\<open>datetime.strptime(s, '%Y-%m-%d')\<close>: midnight of the day the string denotes; \<open>None\<close>
  stands for the \<^verbatim>\<open>ValueError\<close> raised when the string does not match the format or
  names no day of the calendar.
\<close>

definition strptime_Ymd :: "string \<Rightarrow> pydatetime option" where
  "strptime_Ymd s =
     (case dropWhile (\<lambda>c. c \<noteq> CHR ''-'') s of
        [] \<Rightarrow> None
      | _ # r \<Rightarrow>
          (case dropWhile (\<lambda>c. c \<noteq> CHR ''-'') r of
             [] \<Rightarrow> None
           | _ # ds \<Rightarrow>
               (case year_field (takeWhile (\<lambda>c. c \<noteq> CHR ''-'') s) of
                  None \<Rightarrow> None
                | Some y \<Rightarrow>
                    (case digits_field 1 12 (takeWhile (\<lambda>c. c \<noteq> CHR ''-'') r) of
                       None \<Rightarrow> None
                     | Some m \<Rightarrow>
                         (case day_field ds of
                            None \<Rightarrow> None
                          | Some d \<Rightarrow>
                              if 1 \<le> y \<and> d \<le> days_in_month y m
                              then Some ((y, m, d), (0, 0, 0, 0)) else None)))))"

datatype py_error = ValueError

definition get_promocode :: "store \<Rightarrow> string \<Rightarrow> promo option" where
  "get_promocode s c = find (\<lambda>p. py_upper (code p) = py_upper c) (promocodes s)"

text \<open>
  \<open>now\<close> is the value of \<^verbatim>\<open>datetime.now()\<close>. The result is \<open>Inr None\<close> for Python's
  \<^verbatim>\<open>None\<close>, \<open>Inr (Some p)\<close> for a returned promo code and \<open>Inl ValueError\<close> when
  \<^verbatim>\<open>strptime\<close> raises.
\<close>

definition check_promocode ::
  "pydatetime \<Rightarrow> store \<Rightarrow> string \<Rightarrow> money \<Rightarrow> py_error + promo option" where
  "check_promocode now s c order_tot =
     (case find (\<lambda>p. py_upper (code p) = py_upper c \<and> active p) (promocodes s) of
        None \<Rightarrow> Inr None
      | Some prm \<Rightarrow>
          if order_tot < dict_get (min_order prm) 0 then Inr None
          else
            (case strptime_Ymd (expiry_date prm) of
               None \<Rightarrow> Inl ValueError
             | Some expiry \<Rightarrow>
                 if now > expiry then Inr None
                 else
                   (case max_uses prm of
                      None \<Rightarrow> Inr (Some prm)
                    | Some m \<Rightarrow>
                        if dict_get (current_uses prm) 0 \<ge> m then Inr None
                        else Inr (Some prm))))"

text \<open>The truth value of an optional number: present and not zero.\<close>

definition truthy :: "money option \<Rightarrow> bool" where
  "truthy v = (case v of None \<Rightarrow> False | Some x \<Rightarrow> x \<noteq> 0)"

definition calculate_discount :: "promo \<Rightarrow> money \<Rightarrow> money" where
  "calculate_discount prm order_tot =
     (if truthy (discount_percent prm) then order_tot * the (discount_percent prm) / 100
      else if truthy (discount_fixed prm) then min (the (discount_fixed prm)) order_tot
      else 0)"

definition use_promocode :: "store \<Rightarrow> string \<Rightarrow> store" where
  "use_promocode s c =
     s\<lparr>promocodes := update_first (\<lambda>p. py_upper (code p) = py_upper c)
                        (\<lambda>p. p\<lparr>current_uses := Some (dict_get (current_uses p) 0 + 1)\<rparr>)
                        (promocodes s)\<rparr>"

section \<open>Order status flow and cancellation (order\_handlers.py, user\_handlers.py)\<close>

definition ORDER_STATUSES :: "string list" where
  "ORDER_STATUSES = [''new'', ''accepted'', ''preparing'', ''on_the_way'', ''delivered'']"

text \<open>\<^verbatim>\<open>xs.index(x)\<close> for an \<open>x\<close> that occurs in \<open>xs\<close>: the position of its first occurrence.\<close>

fun list_index :: "'a list \<Rightarrow> 'a \<Rightarrow> nat" where
  "list_index [] x = 0"
| "list_index (y # ys) x = (if y = x then 0 else Suc (list_index ys x))"

definition get_next_status :: "string \<Rightarrow> string" where
  "get_next_status current_status =
     (if current_status \<in> set ORDER_STATUSES
      then let current_index = list_index ORDER_STATUSES current_status
           in if current_index < length ORDER_STATUSES - 1
              then ORDER_STATUSES ! (current_index + 1)
              else current_status
      else current_status)"

text \<open>
  The handlers answer the chat and change the store or the session. The answer is the
  first component of the result: one constructor for each message the handler can send.
\<close>

datatype cancel_answer = CancelOrderNotFound | CannotCancel | OrderCancelled

definition cancel_order_callback :: "string \<Rightarrow> store \<Rightarrow> int \<Rightarrow> cancel_answer \<times> store" where
  "cancel_order_callback now s oid =
     (case get_order s oid of
        None \<Rightarrow> (CancelOrderNotFound, s)
      | Some ordr \<Rightarrow>
          if status ordr \<in> set [''on_the_way'', ''delivered'', ''cancelled'']
          then (CannotCancel, s)
          else (OrderCancelled, update_order_status now s oid ''cancelled''))"

section \<open>The customer session (user\_handlers.py)\<close>

text \<open>
  \<^verbatim>\<open>context.user_data\<close>, the dictionary of one customer's session. A key that is absent
  and a key that holds \<^verbatim>\<open>None\<close> are both \<open>None\<close>: the handlers read these keys with
  \<^verbatim>\<open>get\<close> only.
\<close>

record user_data =
  ud_cart :: "cart_item list option"
  current_quantity :: "int option"
  ud_order_subtotal :: "money option"
  ud_delivery_cost :: "money option"
  ud_discount :: "money option"
  ud_promo_code :: "string option"
  ud_order_total :: "money option"
  ud_delivery_address :: "string option"
  ud_phone :: "string option"

text \<open>\<^verbatim>\<open>sub in s\<close> on strings.\<close>

fun py_in :: "string \<Rightarrow> string \<Rightarrow> bool" where
  "py_in sub [] = (sub = [])"
| "py_in sub (c # cs) = (take (length sub) (c # cs) = sub \<or> py_in sub cs)"

subsection \<open>Cart\<close>

text \<open>The quantity selector on the product page: \<open>data\<close> is the callback data.\<close>

definition quantity_callback :: "user_data \<Rightarrow> string \<Rightarrow> user_data" where
  "quantity_callback ud data =
     (let current_qty = dict_get (current_quantity ud) 1;
          current_qty' =
            (if py_in ''minus'' data \<and> current_qty > 1 then current_qty - 1
             else if py_in ''plus'' data \<and> current_qty < 99 then current_qty + 1
             else current_qty)
      in ud\<lparr>current_quantity := Some current_qty'\<rparr>)"

text \<open>
  In the cart handlers \<open>pid\<close> is the product id that ends the callback data,
  \<^verbatim>\<open>int(data.split('_')[-1])\<close>.
\<close>

definition add_to_cart_callback :: "store \<Rightarrow> user_data \<Rightarrow> int \<Rightarrow> user_data" where
  "add_to_cart_callback s ud pid =
     (let qty = dict_get (current_quantity ud) 1
      in case get_product s pid of
           None \<Rightarrow> ud
         | Some prd \<Rightarrow>
             let cart0 = dict_get (ud_cart ud) []
             in (case find (\<lambda>item. product_id item = pid) cart0 of
                   Some existing_item \<Rightarrow>
                     ud\<lparr>ud_cart := Some (update_first (\<lambda>item. product_id item = pid)
                                         (\<lambda>item. item\<lparr>quantity := quantity item + qty\<rparr>) cart0)\<rparr>
                 | None \<Rightarrow>
                     ud\<lparr>ud_cart := Some (cart0 @ [\<lparr>product_id = pid, product_name = prod_name prd,
                                                  price = prod_price prd, quantity = qty\<rparr>])\<rparr>))"

text \<open>
  The loop of \<open>cart_modify_callback\<close> stops at the first line of the product. On minus
  it lowers the quantity and, when the quantity is then 0 or less, calls
  \<^verbatim>\<open>cart.remove(item)\<close>, which deletes the first element equal to the line.
\<close>

definition cart_change :: "bool \<Rightarrow> int \<Rightarrow> cart_item list \<Rightarrow> cart_item list" where
  "cart_change is_minus pid cart0 =
     (case find (\<lambda>item. product_id item = pid) cart0 of
        None \<Rightarrow> cart0
      | Some item \<Rightarrow>
          if is_minus
          then let item' = item\<lparr>quantity := quantity item - 1\<rparr>;
                   cart1 = update_first (\<lambda>item. product_id item = pid) (\<lambda>_. item') cart0
               in if quantity item' \<le> 0 then remove1 item' cart1 else cart1
          else update_first (\<lambda>item. product_id item = pid)
                 (\<lambda>item. item\<lparr>quantity := quantity item + 1\<rparr>) cart0)"

definition cart_modify_callback :: "user_data \<Rightarrow> string \<Rightarrow> int \<Rightarrow> user_data" where
  "cart_modify_callback ud data pid =
     (let cart0 = dict_get (ud_cart ud) []
      in if py_in ''cart_minus'' data \<or> py_in ''cart_plus'' data
         then ud\<lparr>ud_cart := Some (cart_change (py_in ''minus'' data) pid cart0)\<rparr>
         else if py_in ''remove_from_cart'' data
         then ud\<lparr>ud_cart := Some (filter (\<lambda>item. product_id item \<noteq> pid) cart0)\<rparr>
         else ud)"

subsection \<open>Reorder\<close>

datatype reorder_answer = ReorderOrderNotFound | NoAvailableItems | ItemsAdded

text \<open>The loop that copies the lines of the order; \<open>acc\<close> is the cart built so far.\<close>

fun copy_items :: "store \<Rightarrow> cart_item list \<Rightarrow> cart_item list \<Rightarrow> cart_item list" where
  "copy_items s acc [] = acc"
| "copy_items s acc (item # rest) =
     (case get_product s (product_id item) of
        None \<Rightarrow> copy_items s acc rest
      | Some prd \<Rightarrow>
          if dict_get (prod_available prd) True
          then copy_items s (acc @ [\<lparr>product_id = product_id item,
                                      product_name = product_name item,
                                      price = prod_price prd,
                                      quantity = quantity item\<rparr>]) rest
          else copy_items s acc rest)"

definition reorder_callback :: "store \<Rightarrow> user_data \<Rightarrow> int \<Rightarrow> reorder_answer \<times> user_data" where
  "reorder_callback s ud oid =
     (case get_order s oid of
        None \<Rightarrow> (ReorderOrderNotFound, ud)
      | Some ordr \<Rightarrow>
          let ud' = ud\<lparr>ud_cart := Some (copy_items s [] (items ordr))\<rparr>
          in if dict_get (ud_cart ud') [] = [] then (NoAvailableItems, ud') else (ItemsAdded, ud'))"

subsection \<open>Checkout: promo code and payment\<close>

text \<open>
  \<^verbatim>\<open>str.strip()\<close>: a character stands for the code point of its number, and these are
  the code points below 256 that Python counts as white space.
\<close>

definition is_space :: "char \<Rightarrow> bool" where
  "is_space c = (c \<in> set [CHR '' '', CHR 0x09, CHR 0x0A, CHR 0x0B, CHR 0x0C, CHR 0x0D,
                           CHR 0x1C, CHR 0x1D, CHR 0x1E, CHR 0x1F, CHR 0x85, CHR 0xA0])"

definition py_strip :: "string \<Rightarrow> string" where
  "py_strip s = rev (dropWhile is_space (rev (dropWhile is_space s)))"

definition receive_promocode ::
  "pydatetime \<Rightarrow> store \<Rightarrow> user_data \<Rightarrow> string \<Rightarrow> py_error + user_data" where
  "receive_promocode now s ud msg =
     (let c = py_upper (py_strip msg);
          sub = dict_get (ud_order_subtotal ud) 0
      in case check_promocode now s c sub of
           Inl err \<Rightarrow> Inl err
         | Inr None \<Rightarrow> Inr ud
         | Inr (Some prm) \<Rightarrow>
             let disc = calculate_discount prm sub
             in Inr (ud\<lparr>ud_discount := Some disc, ud_promo_code := Some c,
                        ud_order_total := Some (sub + dict_get (ud_delivery_cost ud) 0 - disc)\<rparr>))"

text \<open>
  \<open>uid\<close> is \<^verbatim>\<open>update.effective_user.id\<close>, \<open>now\<close> the formatted time stamp that
  \<open>create_order\<close> writes. The result is the new order's id, the store and the session.
\<close>

definition payment_method_callback ::
  "string \<Rightarrow> store \<Rightarrow> user_data \<Rightarrow> int \<Rightarrow> string \<Rightarrow> int \<times> store \<times> user_data" where
  "payment_method_callback now s ud uid data =
     (let method = (if py_in ''cash'' data then ''cash''
                    else if py_in ''card_on_delivery'' data then ''card_on_delivery''
                    else ''online'');
          order_data =
            \<lparr>order_id = 0, user_id = uid, items = dict_get (ud_cart ud) [],
             order_subtotal = dict_get (ud_order_subtotal ud) 0,
             order_delivery_cost = dict_get (ud_delivery_cost ud) 0,
             order_discount = dict_get (ud_discount ud) 0,
             order_promo_code = ud_promo_code ud,
             order_total = Some (dict_get (ud_order_total ud) 0),
             delivery_address = ud_delivery_address ud, order_phone = ud_phone ud,
             payment_method = method, comment = [], status = [], created_at = [],
             delivered_at = None\<rparr>;
          created = create_order now s order_data;
          s' = (case ud_promo_code ud of
                  None \<Rightarrow> snd created
                | Some c \<Rightarrow> if c = [] then snd created else use_promocode (snd created) c)
      in (fst created, s', ud\<lparr>ud_cart := Some [], ud_discount := Some 0, ud_promo_code := None\<rparr>))"

section \<open>Reorder: the cart the specification describes\<close>

text \<open>
  The specification's reading of reorder, to be compared with \<open>copy_items\<close>: a line is
  kept when its product exists and is not marked unavailable, and a kept line takes the
  product's current price while its name and quantity stay those of the order.
\<close>

definition still_available :: "store \<Rightarrow> cart_item \<Rightarrow> bool" where
  "still_available s item =
     (case get_product s (product_id item) of
        None \<Rightarrow> False
      | Some prd \<Rightarrow> dict_get (prod_available prd) True)"

definition at_current_price :: "store \<Rightarrow> cart_item \<Rightarrow> cart_item" where
  "at_current_price s item =
     (case get_product s (product_id item) of
        None \<Rightarrow> item
      | Some prd \<Rightarrow> item\<lparr>price := prod_price prd\<rparr>)"

definition reordered_cart :: "store \<Rightarrow> order \<Rightarrow> cart_item list" where
  "reordered_cart s ordr = map (at_current_price s) (filter (still_available s) (items ordr))"

section \<open>Sample data\<close>

text \<open>Concrete carts, orders and stores on which the theorems below are instantiated.\<close>

definition sample_config :: config where
  "sample_config =
     \<lparr>min_order_amount = Some 500, free_delivery_from = None, cfg_delivery_cost = None,
      working_hours_start = None, working_hours_end = None\<rparr>"

definition sample_line :: "int \<Rightarrow> money \<Rightarrow> int \<Rightarrow> cart_item" where
  "sample_line pid p q = \<lparr>product_id = pid, product_name = ''roll'', price = p, quantity = q\<rparr>"

definition sample_order :: "int \<Rightarrow> string \<Rightarrow> order" where
  "sample_order oid st =
     \<lparr>order_id = oid, user_id = 7, items = [sample_line 1 300 2, sample_line 2 400 1],
      order_subtotal = 1000, order_delivery_cost = 0, order_discount = 0,
      order_promo_code = None, order_total = Some 1000, delivery_address = Some ''Main street 1'',
      order_phone = Some ''555'', payment_method = ''cash'', comment = [],
      status = st, created_at = ''2024-01-01 12:00:00'', delivered_at = None\<rparr>"

definition sample_user :: user where
  "sample_user =
     \<lparr>telegram_id = 7, user_phone = None, addresses = [], bonus_points = Some 5,
      total_orders = Some 2\<rparr>"

definition sample_store :: store where
  "sample_store =
     \<lparr>products = [\<lparr>prod_id = 1, prod_name = ''roll'', prod_price = 350, prod_available = Some False\<rparr>,
                  \<lparr>prod_id = 2, prod_name = ''soup'', prod_price = 450, prod_available = None\<rparr>],
      users = [sample_user],
      orders = [sample_order 1 ''new'', sample_order 2 ''preparing''],
      promocodes = [],
      stats = \<lparr>stat_total_orders = Some 2, stat_total_revenue = Some 2000,
               stat_average_order = Some 1000\<rparr>\<rparr>"

definition sample_promo :: "string \<Rightarrow> int option \<Rightarrow> int option \<Rightarrow> promo" where
  "sample_promo c cap used =
     \<lparr>code = c, active = True, discount_percent = Some 10, discount_fixed = None,
      min_order = Some 500, expiry_date = ''2030-12-31'', max_uses = cap, current_uses = used\<rparr>"

definition promo_store :: store where
  "promo_store =
     sample_store\<lparr>promocodes := [sample_promo ''SALE'' (Some 3) (Some 3),
                                 sample_promo ''Fresh'' (Some 3) (Some 2)]\<rparr>"

definition sample_now :: pydatetime where
  "sample_now = ((2025, 6, 1), (12, 0, 0, 0))"

definition stale_store :: store where
  "stale_store =
     sample_store\<lparr>orders := [(sample_order 5 ''delivered'')
                                \<lparr>items := [sample_line 1 300 2, sample_line 9 100 1]\<rparr>]\<rparr>"

definition empty_session :: user_data where
  "empty_session =
     \<lparr>ud_cart = None, current_quantity = None, ud_order_subtotal = None,
      ud_delivery_cost = None, ud_discount = None, ud_promo_code = None,
      ud_order_total = None, ud_delivery_address = None, ud_phone = None\<rparr>"

definition once_store :: store where
  "once_store = sample_store\<lparr>promocodes := [sample_promo ''ONCE'' (Some 1) (Some 0)]\<rparr>"

definition checkout_session :: user_data where
  "checkout_session =
     empty_session\<lparr>ud_cart := Some [sample_line 2 450 2], ud_order_subtotal := Some 900,
                    ud_delivery_cost := Some 200, ud_discount := Some 0,
                    ud_order_total := Some 1100\<rparr>"

definition applied_session :: user_data where
  "applied_session =
     checkout_session\<lparr>ud_discount := Some 90, ud_promo_code := Some ''ONCE'',
                       ud_order_total := Some 1010\<rparr>"


definition expiring_promo :: promo where
  "expiring_promo = (sample_promo ''SALE'' (Some 3) (Some 0))\<lparr>expiry_date := ''2025-06-01''\<rparr>"

definition misdated_promo :: promo where
  "misdated_promo = (sample_promo ''SALE'' (Some 3) (Some 3))\<lparr>expiry_date := ''2023-02-29''\<rparr>"

definition expiring_store :: store where
  "expiring_store = sample_store\<lparr>promocodes := [expiring_promo]\<rparr>"

definition misdated_store :: store where
  "misdated_store = sample_store\<lparr>promocodes := [misdated_promo]\<rparr>"

section \<open>Order totals: properties\<close>

lemma sum_from_acc: "sum_from acc cart = acc + (\<Sum>i\<leftarrow>cart. price i * of_int (quantity i))"
  by (induction cart arbitrary: acc) (simp_all add: algebra_simps)

lemma cart_sum_eq: "cart_sum cart = (\<Sum>i\<leftarrow>cart. price i * of_int (quantity i))"
  by (simp add: cart_sum_def sum_from_acc)

text \<open>
  Claim C1. For every cart, delivery cost and discount, \<open>calculate_order_totals\<close> returns
  the sum of unit price times quantity as subtotal, the delivery cost and the discount as
  given, and \<open>max 0 (subtotal + delivery - discount)\<close> as total, which is never negative.
  The function is total on carts whose lines carry a price and a quantity: it has no
  failing branch.
\<close>

theorem calculate_order_totals_spec:
  "subtotal (calculate_order_totals cart dcost disc) = (\<Sum>i\<leftarrow>cart. price i * of_int (quantity i))
   \<and> delivery_cost (calculate_order_totals cart dcost disc) = dcost
   \<and> discount (calculate_order_totals cart dcost disc) = disc
   \<and> total (calculate_order_totals cart dcost disc)
       = max 0 ((\<Sum>i\<leftarrow>cart. price i * of_int (quantity i)) + dcost - disc)
   \<and> 0 \<le> total (calculate_order_totals cart dcost disc)"
  by (simp add: calculate_order_totals_def Let_def cart_sum_eq)

section \<open>Working hours and validation: properties\<close>

text \<open>
  Claim C8. When both configured strings parse, to \<open>s\<close> and \<open>e\<close>, the result is
  \<open>s \<le> now \<and> now \<le> e\<close> if \<open>s \<le> e\<close>, and \<open>now \<ge> s \<or> now \<le> e\<close> if \<open>s > e\<close> (a window
  that wraps past midnight). When one of the strings is malformed the result is \<open>True\<close>.
  The witness evaluates the scenario now = 23:30 with the window 22:00 to 02:00.
\<close>

theorem is_order_within_working_hours_spec:
  "(strptime_HM (dict_get (working_hours_start cfg) ''10:00'') = Some s
      \<and> strptime_HM (dict_get (working_hours_end cfg) ''23:00'') = Some e
    \<longrightarrow> is_order_within_working_hours now cfg
          = (if s \<le> e then s \<le> now \<and> now \<le> e else now \<ge> s \<or> now \<le> e))
   \<and> (strptime_HM (dict_get (working_hours_start cfg) ''10:00'') = None
      \<or> strptime_HM (dict_get (working_hours_end cfg) ''23:00'') = None
    \<longrightarrow> is_order_within_working_hours now cfg)"
  by (auto simp: is_order_within_working_hours_def Let_def split: option.splits)

theorem is_order_within_working_hours_witness:
  "is_order_within_working_hours (23, 30, 0, 0)
     \<lparr>min_order_amount = None, free_delivery_from = None, cfg_delivery_cost = None,
      working_hours_start = Some ''22:00'', working_hours_end = Some ''02:00''\<rparr>
   \<and> \<not> is_order_within_working_hours (23, 0, 0, 1)
     \<lparr>min_order_amount = None, free_delivery_from = None, cfg_delivery_cost = None,
      working_hours_start = None, working_hours_end = None\<rparr>
   \<and> is_order_within_working_hours (3, 0, 0, 0)
     \<lparr>min_order_amount = None, free_delivery_from = None, cfg_delivery_cost = None,
      working_hours_start = Some ''10:00'', working_hours_end = Some ''25:00''\<rparr>"
  using
    is_order_within_working_hours_spec
      [of "\<lparr>min_order_amount = None, free_delivery_from = None, cfg_delivery_cost = None,
            working_hours_start = Some ''22:00'', working_hours_end = Some ''02:00''\<rparr>"
          "(22, 0, 0, 0)" "(2, 0, 0, 0)" "(23, 30, 0, 0)"]
    is_order_within_working_hours_spec
      [of "\<lparr>min_order_amount = None, free_delivery_from = None, cfg_delivery_cost = None,
            working_hours_start = None, working_hours_end = None\<rparr>"
          "(10, 0, 0, 0)" "(23, 0, 0, 0)" "(23, 0, 0, 1)"]
    is_order_within_working_hours_spec
      [of "\<lparr>min_order_amount = None, free_delivery_from = None, cfg_delivery_cost = None,
            working_hours_start = Some ''10:00'', working_hours_end = Some ''25:00''\<rparr>"
          "(10, 0, 0, 0)" "(0, 0, 0, 0)" "(3, 0, 0, 0)"]
  by (simp add: dict_get_def strptime_HM_def is_digit_def digit_val_def)

text \<open>
  Claim C4. An empty cart is rejected with \<open>EmptyCart\<close> whatever the other parameters
  are; a non-empty cart whose subtotal is below the minimum order amount is rejected with
  \<open>BelowMinimum\<close>; otherwise, outside working hours, the order is rejected with
  \<open>OutsideHours\<close>; otherwise it is valid. The earlier check wins.
\<close>

theorem validate_order_spec:
  "(cart = [] \<longrightarrow> validate_order now cart cfg = (False, Some EmptyCart))
   \<and> (cart \<noteq> [] \<and> (\<Sum>i\<leftarrow>cart. price i * of_int (quantity i)) < dict_get (min_order_amount cfg) 0
      \<longrightarrow> validate_order now cart cfg
            = (False, Some (BelowMinimum (dict_get (min_order_amount cfg) 0))))
   \<and> (cart \<noteq> [] \<and> \<not> (\<Sum>i\<leftarrow>cart. price i * of_int (quantity i)) < dict_get (min_order_amount cfg) 0
        \<and> \<not> is_order_within_working_hours now cfg
      \<longrightarrow> validate_order now cart cfg
            = (False, Some (OutsideHours (dict_get (working_hours_start cfg) ''10:00'')
                                         (dict_get (working_hours_end cfg) ''23:00''))))
   \<and> (cart \<noteq> [] \<and> \<not> (\<Sum>i\<leftarrow>cart. price i * of_int (quantity i)) < dict_get (min_order_amount cfg) 0
        \<and> is_order_within_working_hours now cfg
      \<longrightarrow> validate_order now cart cfg = (True, None))"
  by (simp add: validate_order_def Let_def cart_sum_eq)

theorem validate_order_witness:
  "validate_order (3, 0, 0, 0) []
     \<lparr>min_order_amount = Some 500, free_delivery_from = None, cfg_delivery_cost = None,
      working_hours_start = None, working_hours_end = None\<rparr> = (False, Some EmptyCart)
   \<and> validate_order (3, 0, 0, 0)
     [\<lparr>product_id = 1, product_name = ''roll'', price = 300, quantity = 1\<rparr>]
     \<lparr>min_order_amount = Some 500, free_delivery_from = None, cfg_delivery_cost = None,
      working_hours_start = None, working_hours_end = None\<rparr> = (False, Some (BelowMinimum 500))
   \<and> validate_order (3, 0, 0, 0)
     [\<lparr>product_id = 1, product_name = ''roll'', price = 300, quantity = 2\<rparr>]
     \<lparr>min_order_amount = Some 500, free_delivery_from = None, cfg_delivery_cost = None,
      working_hours_start = None, working_hours_end = None\<rparr>
       = (False, Some (OutsideHours ''10:00'' ''23:00''))
   \<and> validate_order (12, 0, 0, 0)
     [\<lparr>product_id = 1, product_name = ''roll'', price = 300, quantity = 2\<rparr>]
     \<lparr>min_order_amount = Some 500, free_delivery_from = None, cfg_delivery_cost = None,
      working_hours_start = None, working_hours_end = None\<rparr> = (True, None)"
  using
    validate_order_spec
      [of "[]" "(3, 0, 0, 0)"
          "\<lparr>min_order_amount = Some 500, free_delivery_from = None, cfg_delivery_cost = None,
            working_hours_start = None, working_hours_end = None\<rparr>"]
    validate_order_spec
      [of "[\<lparr>product_id = 1, product_name = ''roll'', price = 300, quantity = 1\<rparr>]" "(3, 0, 0, 0)"
          "\<lparr>min_order_amount = Some 500, free_delivery_from = None, cfg_delivery_cost = None,
            working_hours_start = None, working_hours_end = None\<rparr>"]
    validate_order_spec
      [of "[\<lparr>product_id = 1, product_name = ''roll'', price = 300, quantity = 2\<rparr>]" "(3, 0, 0, 0)"
          "\<lparr>min_order_amount = Some 500, free_delivery_from = None, cfg_delivery_cost = None,
            working_hours_start = None, working_hours_end = None\<rparr>"]
    validate_order_spec
      [of "[\<lparr>product_id = 1, product_name = ''roll'', price = 300, quantity = 2\<rparr>]" "(12, 0, 0, 0)"
          "\<lparr>min_order_amount = Some 500, free_delivery_from = None, cfg_delivery_cost = None,
            working_hours_start = None, working_hours_end = None\<rparr>"]
  by (simp add: dict_get_def is_order_within_working_hours_def strptime_HM_def is_digit_def digit_val_def)

section \<open>The entity store: properties\<close>

lemma update_first_none: "\<forall>x\<in>set xs. \<not> P x \<Longrightarrow> update_first P f xs = xs"
  by (induction xs) simp_all

lemma update_first_split:
  "\<forall>x\<in>set pre. \<not> P x \<Longrightarrow> P x \<Longrightarrow> update_first P f (pre @ x # post) = pre @ f x # post"
  by (induction pre) simp_all

lemma find_split:
  "\<forall>x\<in>set pre. \<not> P x \<Longrightarrow> P x \<Longrightarrow> find P (pre @ x # post) = Some x"
  by (induction pre) simp_all

lemma find_none: "\<forall>x\<in>set xs. \<not> P x \<Longrightarrow> find P xs = None"
  by (induction xs) simp_all




text \<open>
  Claim C5. \<open>update_order_status\<close> overwrites the status of the first order with the
  given id, whatever the old and the new status are; it sets the delivery time stamp when
  the new status is \<^verbatim>\<open>delivered\<close> and keeps the one the order has otherwise; the other
  fields of that order, the other orders and the rest of the store are unchanged. When no
  order has the id, the store is unchanged.
\<close>

theorem update_order_status_spec:
  "(orders s = pre @ r # post \<and> (\<forall>x\<in>set pre. order_id x \<noteq> oid) \<and> order_id r = oid
      \<longrightarrow> update_order_status now s oid st
            = s\<lparr>orders := pre @ r\<lparr>status := st,
                                     delivered_at := (if st = ''delivered'' then Some now
                                                      else delivered_at r)\<rparr> # post\<rparr>)
   \<and> ((\<forall>x\<in>set (orders s). order_id x \<noteq> oid) \<longrightarrow> update_order_status now s oid st = s)"
  by (simp add: update_order_status_def update_first_none update_first_split)

theorem update_order_status_witness:
  "update_order_status ''2024-01-02 13:00:00'' sample_store 2 ''delivered''
     = sample_store\<lparr>orders := [sample_order 1 ''new'',
          (sample_order 2 ''delivered'')\<lparr>delivered_at := Some ''2024-01-02 13:00:00''\<rparr>]\<rparr>
   \<and> update_order_status ''2024-01-03 09:00:00''
       (sample_store\<lparr>orders := [sample_order 1 ''new'',
          (sample_order 2 ''delivered'')\<lparr>delivered_at := Some ''2024-01-02 13:00:00''\<rparr>]\<rparr>)
       2 ''new''
     = sample_store\<lparr>orders := [sample_order 1 ''new'',
          (sample_order 2 ''new'')\<lparr>delivered_at := Some ''2024-01-02 13:00:00''\<rparr>]\<rparr>
   \<and> update_order_status ''2024-01-02 13:00:00'' sample_store 3 ''delivered'' = sample_store"
  using
    update_order_status_spec
      [where s = sample_store and pre = "[sample_order 1 ''new'']"
         and r = "sample_order 2 ''preparing''" and post = "[]" and oid = 2
         and st = "''delivered''" and now = "''2024-01-02 13:00:00''"]
    update_order_status_spec
      [where s = "sample_store\<lparr>orders := [sample_order 1 ''new'',
          (sample_order 2 ''delivered'')\<lparr>delivered_at := Some ''2024-01-02 13:00:00''\<rparr>]\<rparr>"
         and pre = "[sample_order 1 ''new'']"
         and r = "(sample_order 2 ''delivered'')\<lparr>delivered_at := Some ''2024-01-02 13:00:00''\<rparr>"
         and post = "[]" and oid = 2 and st = "''new''" and now = "''2024-01-03 09:00:00''"]
    update_order_status_spec
      [where s = sample_store and pre = "[]" and r = "sample_order 1 ''new''"
         and post = "[sample_order 2 ''preparing'']" and oid = 3
         and st = "''delivered''" and now = "''2024-01-02 13:00:00''"]
  by (simp add: sample_store_def sample_order_def)




lemma create_order_no_user:
  assumes "\<forall>x\<in>set (users s). telegram_id x \<noteq> user_id order_data"
  shows "users (snd (create_order now s order_data)) = users s"
  using assms
  by (simp add: create_order_def Let_def update_statistics_def get_user_def find_none)










section \<open>Promo codes: properties\<close>

lemma find_conj_distinct:
  "distinct (map f xs) \<Longrightarrow>
   find (\<lambda>p. f p = k \<and> Q p) xs
     = (case find (\<lambda>p. f p = k) xs of None \<Rightarrow> None | Some p \<Rightarrow> if Q p then Some p else None)"
proof (induction xs)
  case Nil
  then show ?case by simp
next
  case (Cons x xs)
  show ?case
  proof (cases "f x = k")
    case True
    with Cons.prems have "f x \<notin> f ` set xs" by simp
    with True have "\<forall>y\<in>set xs. \<not> (f y = k \<and> Q y)" by blast
    then have "find (\<lambda>p. f p = k \<and> Q p) xs = None" by (simp add: find_None_iff)
    with True show ?thesis by simp
  next
    case False
    with Cons show ?thesis by simp
  qed
qed

lemma check_promocode_unfold:
  assumes "distinct (map (\<lambda>p. py_upper (code p)) (promocodes s))"
  shows "check_promocode now s c t
     = (case get_promocode s c of
          None \<Rightarrow> Inr None
        | Some p \<Rightarrow>
            if \<not> active p then Inr None
            else if t < dict_get (min_order p) 0 then Inr None
            else (case strptime_Ymd (expiry_date p) of
                    None \<Rightarrow> Inl ValueError
                  | Some e \<Rightarrow>
                      if now > e then Inr None
                      else (case max_uses p of
                              None \<Rightarrow> Inr (Some p)
                            | Some m \<Rightarrow> if dict_get (current_uses p) 0 \<ge> m then Inr None
                                        else Inr (Some p))))"
  unfolding check_promocode_def get_promocode_def find_conj_distinct [OF assms]
  by (simp split: option.splits)


lemma get_promocode_mem: "get_promocode s c = Some q \<Longrightarrow> q \<in> set (promocodes s)"
  by (auto simp: get_promocode_def find_Some_iff)

lemma check_promocode_none_iff:
  assumes "distinct (map (\<lambda>p. py_upper (code p)) (promocodes s))"
  shows "check_promocode now s c t = Inr None \<longleftrightarrow>
            get_promocode s c = None
            \<or> (\<exists>p. get_promocode s c = Some p
                 \<and> (\<not> active p \<or> t < dict_get (min_order p) 0
                     \<or> (\<exists>e. strptime_Ymd (expiry_date p) = Some e
                           \<and> (now > e
                               \<or> (\<exists>m. max_uses p = Some m \<and> m \<le> dict_get (current_uses p) 0)))))"
proof (cases "get_promocode s c")
  case None
  then show ?thesis by (simp add: check_promocode_unfold [OF assms])
next
  case p: (Some q)
  show ?thesis
  proof (cases "strptime_Ymd (expiry_date q)")
    case None
    with p show ?thesis
      by (simp add: check_promocode_unfold [OF assms])
  next
    case e: (Some d)
    show ?thesis
    proof (cases "max_uses q")
      case None
      with p e show ?thesis
        by (auto simp del: split_paired_Ex split_paired_All
            simp add: check_promocode_unfold [OF assms])
    next
      case (Some m)
      with p e show ?thesis
        by (auto simp del: split_paired_Ex split_paired_All
            simp add: check_promocode_unfold [OF assms])
    qed
  qed
qed

lemma check_promocode_some:
  assumes "distinct (map (\<lambda>p. py_upper (code p)) (promocodes s))"
    and "check_promocode now s c t = Inr (Some q)"
  shows "check_promocode now s c t = Inr (get_promocode s c)"
  using assms(2) unfolding check_promocode_unfold [OF assms(1)]
  by (auto split: option.splits if_splits)

text \<open>
  The one raising path: an active code that passes the minimum and holds an expiry date
  that \<^verbatim>\<open>strptime\<close> rejects.
\<close>

lemma check_promocode_error_iff:
  assumes "distinct (map (\<lambda>p. py_upper (code p)) (promocodes s))"
  shows "check_promocode now s c t = Inl ValueError \<longleftrightarrow>
           (\<exists>p. get_promocode s c = Some p \<and> active p \<and> \<not> t < dict_get (min_order p) 0
                \<and> strptime_Ymd (expiry_date p) = None)"
  unfolding check_promocode_unfold [OF assms]
  by (auto split: option.splits if_splits)

lemma upper_sale: "py_upper ''SALE'' = ''SALE''" "py_upper ''sale'' = ''SALE''"
  "py_upper ''Fresh'' = ''FRESH''" "py_upper ''fresh'' = ''FRESH''"
  by (simp_all add: py_upper_def upper_char_def)

lemma strptime_2030: "strptime_Ymd ''2030-12-31'' = Some ((2030, 12, 31), (0, 0, 0, 0))"
  by (simp add: strptime_Ymd_def day_field_def is_digit_def digit_val_def days_in_month_def)

lemma strptime_expiry_day: "strptime_Ymd ''2025-06-01'' = Some ((2025, 6, 1), (0, 0, 0, 0))"
  by (simp add: strptime_Ymd_def day_field_def is_digit_def digit_val_def days_in_month_def)

lemma strptime_no_such_day: "strptime_Ymd ''2023-02-29'' = None"
  by (simp add: strptime_Ymd_def day_field_def is_digit_def digit_val_def days_in_month_def
      is_leap_def)

lemma promo_store_promocodes:
  "promocodes promo_store = [sample_promo ''SALE'' (Some 3) (Some 3),
                             sample_promo ''Fresh'' (Some 3) (Some 2)]"
  by (simp add: promo_store_def)

lemma sample_promo_sel [simp]:
  "code (sample_promo c cap used) = c" "active (sample_promo c cap used)"
  "min_order (sample_promo c cap used) = Some 500"
  "expiry_date (sample_promo c cap used) = ''2030-12-31''"
  "max_uses (sample_promo c cap used) = cap" "current_uses (sample_promo c cap used) = used"
  by (simp_all add: sample_promo_def)

lemma promo_store_distinct: "distinct (map (\<lambda>p. py_upper (code p)) (promocodes promo_store))"
  by (simp add: promo_store_promocodes upper_sale)

lemma promo_store_get:
  "get_promocode promo_store ''sale'' = Some (sample_promo ''SALE'' (Some 3) (Some 3))"
  "get_promocode promo_store ''fresh'' = Some (sample_promo ''Fresh'' (Some 3) (Some 2))"
  by (simp_all add: get_promocode_def promo_store_promocodes upper_sale)

text \<open>
  Claim C3 says that \<open>check_promocode\<close> returns \<^verbatim>\<open>None\<close>, never an error, exactly when the
  code is absent, inactive, below its minimum, past its expiry date or at its usage cap.
  On the code this fails twice. A code is refused from 00:00 of its expiry date on: at
  noon of that day, with every other check passing, the result is \<^verbatim>\<open>None\<close> although the
  expiry date has not passed. And a code whose usage count equals its cap, stored with
  the date 2023-02-29, makes \<^verbatim>\<open>strptime\<close> raise \<^verbatim>\<open>ValueError\<close> instead of giving \<^verbatim>\<open>None\<close>.
\<close>

theorem check_promocode_counterexample:
  "check_promocode sample_now expiring_store ''sale'' 1000 = Inr None
   \<and> get_promocode expiring_store ''sale'' = Some expiring_promo
   \<and> active expiring_promo
   \<and> \<not> 1000 < dict_get (min_order expiring_promo) 0
   \<and> strptime_Ymd (expiry_date expiring_promo) = Some ((2025, 6, 1), (0, 0, 0, 0))
   \<and> fst sample_now = (2025, 6, 1)
   \<and> max_uses expiring_promo = Some 3
   \<and> dict_get (current_uses expiring_promo) 0 < 3
   \<and> check_promocode sample_now misdated_store ''sale'' 1000 = Inl ValueError
   \<and> get_promocode misdated_store ''sale'' = Some misdated_promo
   \<and> max_uses misdated_promo = Some 3
   \<and> current_uses misdated_promo = Some 3"
  by (simp add: check_promocode_def get_promocode_def expiring_store_def misdated_store_def
      expiring_promo_def misdated_promo_def upper_sale strptime_expiry_day strptime_no_such_day
      sample_now_def dict_get_def)

text \<open>
  Claim C3, amended. Promo codes are stored under distinct codes (compared in upper case).
  Then \<open>check_promocode\<close> returns \<^verbatim>\<open>None\<close> exactly when the case-insensitive lookup
  \<open>get_promocode\<close> finds no code, or the code found is inactive, or the order subtotal is
  below its minimum, or its expiry date is a date of the calendar and either \<open>now\<close> is
  later than 00:00 of that date or the code has a usage cap that the usage count has
  reached. A promo code that is returned is the one the lookup finds. In particular a
  code with a valid expiry date and \<open>current_uses = max_uses\<close> is refused, and one with
  \<open>current_uses = max_uses - 1\<close> that passes the other checks is returned.
\<close>

theorem check_promocode_spec:
  assumes "distinct (map (\<lambda>p. py_upper (code p)) (promocodes s))"
  shows "(check_promocode now s c t = Inr None \<longleftrightarrow>
            get_promocode s c = None
            \<or> (\<exists>p. get_promocode s c = Some p
                 \<and> (\<not> active p \<or> t < dict_get (min_order p) 0
                     \<or> (\<exists>e. strptime_Ymd (expiry_date p) = Some e
                           \<and> (now > e
                               \<or> (\<exists>m. max_uses p = Some m \<and> m \<le> dict_get (current_uses p) 0))))))
     \<and> ((\<exists>q. check_promocode now s c t = Inr (Some q))
          \<longrightarrow> check_promocode now s c t = Inr (get_promocode s c))
     \<and> (get_promocode s c = Some p \<and> strptime_Ymd (expiry_date p) = Some e
          \<and> max_uses p = Some m \<and> dict_get (current_uses p) 0 = m
          \<longrightarrow> check_promocode now s c t = Inr None)
     \<and> (get_promocode s c = Some p \<and> active p \<and> \<not> t < dict_get (min_order p) 0
          \<and> strptime_Ymd (expiry_date p) = Some e \<and> \<not> now > e
          \<and> max_uses p = Some m \<and> dict_get (current_uses p) 0 = m - 1
          \<longrightarrow> check_promocode now s c t = Inr (Some p))"
proof (intro conjI impI)
  show "check_promocode now s c t = Inr None \<longleftrightarrow>
            get_promocode s c = None
            \<or> (\<exists>p. get_promocode s c = Some p
                 \<and> (\<not> active p \<or> t < dict_get (min_order p) 0
                     \<or> (\<exists>e. strptime_Ymd (expiry_date p) = Some e
                           \<and> (now > e
                               \<or> (\<exists>m. max_uses p = Some m \<and> m \<le> dict_get (current_uses p) 0)))))"
    using assms by (rule check_promocode_none_iff)
next
  assume "\<exists>q. check_promocode now s c t = Inr (Some q)"
  then obtain q where "check_promocode now s c t = Inr (Some q)" by blast
  with assms show "check_promocode now s c t = Inr (get_promocode s c)"
    by (rule check_promocode_some)
next
  assume "get_promocode s c = Some p \<and> strptime_Ymd (expiry_date p) = Some e
          \<and> max_uses p = Some m \<and> dict_get (current_uses p) 0 = m"
  then show "check_promocode now s c t = Inr None"
    by (simp add: check_promocode_unfold [OF assms])
next
  assume "get_promocode s c = Some p \<and> active p \<and> \<not> t < dict_get (min_order p) 0
          \<and> strptime_Ymd (expiry_date p) = Some e \<and> \<not> now > e
          \<and> max_uses p = Some m \<and> dict_get (current_uses p) 0 = m - 1"
  then show "check_promocode now s c t = Inr (Some p)"
    by (simp add: check_promocode_unfold [OF assms])
qed

theorem check_promocode_witness:
  "check_promocode sample_now promo_store ''sale'' 1000 = Inr None
   \<and> check_promocode sample_now promo_store ''fresh'' 1000
       = Inr (Some (sample_promo ''Fresh'' (Some 3) (Some 2)))"
proof
  have "get_promocode promo_store ''sale'' = Some (sample_promo ''SALE'' (Some 3) (Some 3))
        \<and> strptime_Ymd (expiry_date (sample_promo ''SALE'' (Some 3) (Some 3)))
            = Some ((2030, 12, 31), (0, 0, 0, 0))
        \<and> max_uses (sample_promo ''SALE'' (Some 3) (Some 3)) = Some 3
        \<and> dict_get (current_uses (sample_promo ''SALE'' (Some 3) (Some 3))) 0 = 3"
    by (simp add: promo_store_get dict_get_def strptime_2030)
  with check_promocode_spec [OF promo_store_distinct,
      where c = "''sale''" and p = "sample_promo ''SALE'' (Some 3) (Some 3)" and m = 3
        and e = "((2030, 12, 31), (0, 0, 0, 0))"]
  show "check_promocode sample_now promo_store ''sale'' 1000 = Inr None"
    by blast
next
  have "get_promocode promo_store ''fresh'' = Some (sample_promo ''Fresh'' (Some 3) (Some 2))
        \<and> active (sample_promo ''Fresh'' (Some 3) (Some 2))
        \<and> \<not> 1000 < dict_get (min_order (sample_promo ''Fresh'' (Some 3) (Some 2))) 0
        \<and> strptime_Ymd (expiry_date (sample_promo ''Fresh'' (Some 3) (Some 2)))
            = Some ((2030, 12, 31), (0, 0, 0, 0))
        \<and> \<not> sample_now > ((2030, 12, 31), (0, 0, 0, 0))
        \<and> max_uses (sample_promo ''Fresh'' (Some 3) (Some 2)) = Some 3
        \<and> dict_get (current_uses (sample_promo ''Fresh'' (Some 3) (Some 2))) 0 = 3 - 1"
    by (simp add: promo_store_get dict_get_def strptime_2030 sample_now_def)
  with check_promocode_spec [OF promo_store_distinct,
      where c = "''fresh''" and p = "sample_promo ''Fresh'' (Some 3) (Some 2)" and m = 3
        and t = 1000 and now = sample_now and e = "((2030, 12, 31), (0, 0, 0, 0))"]
  show "check_promocode sample_now promo_store ''fresh'' 1000
       = Inr (Some (sample_promo ''Fresh'' (Some 3) (Some 2)))"
    by blast
qed

section \<open>Reorder: properties\<close>

lemma copy_items_eq:
  "copy_items s acc its = acc @ map (at_current_price s) (filter (still_available s) its)"
proof (induction its arbitrary: acc)
  case Nil
  then show ?case by simp
next
  case (Cons item rest)
  show ?case
  proof (cases "get_product s (product_id item)")
    case None
    then show ?thesis by (simp add: Cons.IH still_available_def)
  next
    case (Some prd)
    then show ?thesis
      by (simp add: Cons.IH still_available_def at_current_price_def)
  qed
qed

lemma sample_get_product:
  "get_product sample_store 1
     = Some \<lparr>prod_id = 1, prod_name = ''roll'', prod_price = 350, prod_available = Some False\<rparr>"
  "get_product sample_store 2
     = Some \<lparr>prod_id = 2, prod_name = ''soup'', prod_price = 450, prod_available = None\<rparr>"
  "get_product sample_store 9 = None"
  by (simp_all add: get_product_def sample_store_def)

lemma stale_products: "get_product stale_store pid = get_product sample_store pid"
  by (simp add: get_product_def stale_store_def)

lemma sample_reordered:
  "reordered_cart sample_store (sample_order 1 ''new'') = [sample_line 2 450 1]"
  by (simp add: reordered_cart_def still_available_def at_current_price_def sample_get_product
      sample_order_def sample_line_def dict_get_def)

lemma stale_reordered:
  "reordered_cart stale_store
     ((sample_order 5 ''delivered'')\<lparr>items := [sample_line 1 300 2, sample_line 9 100 1]\<rparr>) = []"
  by (simp add: reordered_cart_def still_available_def stale_products sample_get_product
      sample_line_def dict_get_def)

lemma sample_get_order:
  "get_order sample_store 1 = Some (sample_order 1 ''new'')"
  "get_order sample_store 2 = Some (sample_order 2 ''preparing'')"
  by (simp_all add: get_order_def sample_store_def sample_order_def)

lemma stale_get_order:
  "get_order stale_store 5
     = Some ((sample_order 5 ''delivered'')\<lparr>items := [sample_line 1 300 2, sample_line 9 100 1]\<rparr>)"
  by (simp add: get_order_def stale_store_def sample_store_def sample_order_def)

text \<open>
  Claim C6. Reordering a stored order replaces the session cart by the lines of the order
  whose product still exists and is not marked unavailable, each at the product's current
  price and with the name and quantity recorded in the order. When no line is kept the
  answer is \<open>NoAvailableItems\<close> and the session cart is left empty. The witness reorders
  an order with one unavailable and one available product: the cart holds the available
  line only, at the current price 450 instead of the recorded 400.
\<close>

theorem reorder_callback_spec:
  "(get_order s oid = Some ordr \<and> reordered_cart s ordr \<noteq> []
      \<longrightarrow> reorder_callback s ud oid = (ItemsAdded, ud\<lparr>ud_cart := Some (reordered_cart s ordr)\<rparr>))
   \<and> (get_order s oid = Some ordr \<and> reordered_cart s ordr = []
      \<longrightarrow> reorder_callback s ud oid = (NoAvailableItems, ud\<lparr>ud_cart := Some []\<rparr>))
   \<and> (get_order s oid = None \<longrightarrow> reorder_callback s ud oid = (ReorderOrderNotFound, ud))"
  by (simp add: reorder_callback_def Let_def copy_items_eq reordered_cart_def dict_get_def)

theorem reorder_callback_witness:
  "reorder_callback sample_store empty_session 1
     = (ItemsAdded, empty_session\<lparr>ud_cart := Some [sample_line 2 450 1]\<rparr>)
   \<and> reorder_callback stale_store empty_session 5
     = (NoAvailableItems, empty_session\<lparr>ud_cart := Some []\<rparr>)"
  using
    reorder_callback_spec
      [where s = sample_store and oid = 1 and ordr = "sample_order 1 ''new''"
         and ud = empty_session]
    reorder_callback_spec
      [where s = stale_store and oid = 5 and ud = empty_session
         and ordr = "(sample_order 5 ''delivered'')
                       \<lparr>items := [sample_line 1 300 2, sample_line 9 100 1]\<rparr>"]
  by (simp add: sample_get_order stale_get_order sample_reordered stale_reordered)

section \<open>Cancellation and status flow: properties\<close>

lemma find_update_first:
  "(\<And>x. P x \<Longrightarrow> P (f x)) \<Longrightarrow> find P (update_first P f xs) = map_option f (find P xs)"
  by (induction xs) simp_all

lemma get_order_update_order_status:
  "get_order (update_order_status now s oid st) oid
     = map_option (\<lambda>r. if st = ''delivered'' then r\<lparr>status := st, delivered_at := Some now\<rparr>
                         else r\<lparr>status := st\<rparr>) (get_order s oid)"
  by (simp add: get_order_def update_order_status_def find_update_first)

lemma get_next_status_terminal:
  "get_next_status ''delivered'' = ''delivered''" "get_next_status ''cancelled'' = ''cancelled''"
  by (simp_all add: get_next_status_def ORDER_STATUSES_def)

text \<open>
  Claim C7. A customer's cancellation of an order whose status is \<^verbatim>\<open>on_the_way\<close>,
  \<^verbatim>\<open>delivered\<close> or \<^verbatim>\<open>cancelled\<close> is refused and the store is unchanged; for an order in any
  other status the status becomes \<^verbatim>\<open>cancelled\<close>. The status flow has no successor for
  \<^verbatim>\<open>delivered\<close> and \<^verbatim>\<open>cancelled\<close>: \<open>get_next_status\<close> returns them unchanged.
\<close>

theorem cancel_order_callback_spec:
  "(get_order s oid = Some ordr
      \<and> (status ordr = ''on_the_way'' \<or> status ordr = ''delivered'' \<or> status ordr = ''cancelled'')
      \<longrightarrow> cancel_order_callback now s oid = (CannotCancel, s))
   \<and> (get_order s oid = Some ordr
      \<and> status ordr \<noteq> ''on_the_way'' \<and> status ordr \<noteq> ''delivered'' \<and> status ordr \<noteq> ''cancelled''
      \<longrightarrow> cancel_order_callback now s oid = (OrderCancelled, update_order_status now s oid ''cancelled'')
          \<and> get_order (snd (cancel_order_callback now s oid)) oid
              = Some (ordr\<lparr>status := ''cancelled''\<rparr>))
   \<and> get_next_status ''delivered'' = ''delivered''
   \<and> get_next_status ''cancelled'' = ''cancelled''"
  by (simp add: cancel_order_callback_def get_order_update_order_status get_next_status_terminal)

theorem cancel_order_callback_witness:
  "cancel_order_callback ''2024-01-02 13:00:00'' stale_store 5 = (CannotCancel, stale_store)
   \<and> get_order (snd (cancel_order_callback ''2024-01-02 13:00:00'' sample_store 2)) 2
       = Some ((sample_order 2 ''preparing'')\<lparr>status := ''cancelled''\<rparr>)"
proof
  have "get_order stale_store 5
          = Some ((sample_order 5 ''delivered'')
                    \<lparr>items := [sample_line 1 300 2, sample_line 9 100 1]\<rparr>)
        \<and> status ((sample_order 5 ''delivered'')
                    \<lparr>items := [sample_line 1 300 2, sample_line 9 100 1]\<rparr>) = ''delivered''"
    by (simp add: stale_get_order sample_order_def)
  with cancel_order_callback_spec
      [where s = stale_store and oid = 5 and now = "''2024-01-02 13:00:00''"
         and ordr = "(sample_order 5 ''delivered'')
                       \<lparr>items := [sample_line 1 300 2, sample_line 9 100 1]\<rparr>"]
  show "cancel_order_callback ''2024-01-02 13:00:00'' stale_store 5 = (CannotCancel, stale_store)"
    by blast
next
  have "get_order sample_store 2 = Some (sample_order 2 ''preparing'')
        \<and> status (sample_order 2 ''preparing'') \<noteq> ''on_the_way''
        \<and> status (sample_order 2 ''preparing'') \<noteq> ''delivered''
        \<and> status (sample_order 2 ''preparing'') \<noteq> ''cancelled''"
    by (simp add: sample_get_order sample_order_def)
  with cancel_order_callback_spec
      [where s = sample_store and oid = 2 and now = "''2024-01-02 13:00:00''"
         and ordr = "sample_order 2 ''preparing''"]
  show "get_order (snd (cancel_order_callback ''2024-01-02 13:00:00'' sample_store 2)) 2
       = Some ((sample_order 2 ''preparing'')\<lparr>status := ''cancelled''\<rparr>)"
    by blast
qed

section \<open>Cart: properties\<close>

lemma find_decompose:
  "find P xs = Some x \<Longrightarrow> \<exists>pre post. xs = pre @ x # post \<and> (\<forall>y\<in>set pre. \<not> P y) \<and> P x"
proof (induction xs)
  case Nil
  then show ?case by simp
next
  case (Cons a xs)
  show ?case
  proof (cases "P a")
    case True
    with Cons.prems have "a = x" by simp
    with True have "a # xs = [] @ x # xs \<and> (\<forall>y\<in>set []. \<not> P y) \<and> P x" by simp
    then show ?thesis by blast
  next
    case False
    with Cons obtain pre post where "xs = pre @ x # post" "\<forall>y\<in>set pre. \<not> P y" "P x"
      by auto
    with False have "a # xs = (a # pre) @ x # post \<and> (\<forall>y\<in>set (a # pre). \<not> P y) \<and> P x"
      by simp
    then show ?thesis by blast
  qed
qed

lemma cart_change_split:
  assumes "cart0 = pre @ item # post"
    and "\<forall>x\<in>set pre. product_id x \<noteq> pid"
    and "product_id item = pid"
  shows "cart_change True pid cart0
           = (if quantity item - 1 \<le> 0 then pre @ post
              else pre @ item\<lparr>quantity := quantity item - 1\<rparr> # post)"
    and "cart_change False pid cart0 = pre @ item\<lparr>quantity := quantity item + 1\<rparr> # post"
proof -
  let ?P = "\<lambda>x. product_id x = pid"
  have pre: "\<forall>x\<in>set pre. \<not> ?P x" using assms(2) by simp
  have f: "find ?P cart0 = Some item"
    unfolding assms(1) using pre assms(3) by (rule find_split)
  have u: "update_first ?P g cart0 = pre @ g item # post" for g
    unfolding assms(1) using pre assms(3) by (rule update_first_split)
  have "item\<lparr>quantity := quantity item - 1\<rparr> \<notin> set pre"
    using assms(2,3) by auto
  then have r: "remove1 (item\<lparr>quantity := quantity item - 1\<rparr>)
                  (pre @ item\<lparr>quantity := quantity item - 1\<rparr> # post) = pre @ post"
    by (simp add: remove1_append)
  show "cart_change True pid cart0
           = (if quantity item - 1 \<le> 0 then pre @ post
              else pre @ item\<lparr>quantity := quantity item - 1\<rparr> # post)"
    by (simp add: cart_change_def f u r Let_def)
  show "cart_change False pid cart0 = pre @ item\<lparr>quantity := quantity item + 1\<rparr> # post"
    by (simp add: cart_change_def f u)
qed

lemma cart_change_absent:
  "\<forall>x\<in>set cart0. product_id x \<noteq> pid \<Longrightarrow> cart_change m pid cart0 = cart0"
  by (simp add: cart_change_def find_none)

text \<open>Every cart operation keeps the quantities at 1 or more.\<close>

lemma cart_change_positive:
  assumes "\<forall>x\<in>set cart0. 1 \<le> quantity x"
  shows "\<forall>x\<in>set (cart_change m pid cart0). 1 \<le> quantity x"
proof (cases "find (\<lambda>x. product_id x = pid) cart0")
  case None
  then have "cart_change m pid cart0 = cart0" by (simp add: cart_change_def)
  with assms show ?thesis by simp
next
  case (Some item)
  then obtain pre post where d: "cart0 = pre @ item # post"
      "\<forall>y\<in>set pre. product_id y \<noteq> pid" "product_id item = pid"
    using find_decompose [of "\<lambda>x. product_id x = pid" cart0 item] by auto
  show ?thesis
  proof (cases m)
    case True
    then have "cart_change m pid cart0
                 = (if quantity item - 1 \<le> 0 then pre @ post
                    else pre @ item\<lparr>quantity := quantity item - 1\<rparr> # post)"
      using cart_change_split(1) [OF d] by simp
    with assms d(1) show ?thesis by auto
  next
    case False
    then have "cart_change m pid cart0 = pre @ item\<lparr>quantity := quantity item + 1\<rparr> # post"
      using cart_change_split(2) [OF d] by simp
    with assms d(1) show ?thesis by auto
  qed
qed

lemma cart_modify_callback_positive:
  assumes "\<forall>x\<in>set (dict_get (ud_cart ud) []). 1 \<le> quantity x"
  shows "\<forall>x\<in>set (dict_get (ud_cart (cart_modify_callback ud data pid)) []). 1 \<le> quantity x"
  using assms cart_change_positive [OF assms]
  by (simp add: cart_modify_callback_def Let_def dict_get_def)

lemma update_first_set:
  "\<forall>x\<in>set xs. Q x \<Longrightarrow> (\<And>x. Q x \<Longrightarrow> Q (f x)) \<Longrightarrow> \<forall>x\<in>set (update_first P f xs). Q x"
  by (induction xs) simp_all

lemma add_to_cart_callback_positive:
  assumes "\<forall>x\<in>set (dict_get (ud_cart ud) []). 1 \<le> quantity x"
    and "1 \<le> dict_get (current_quantity ud) 1"
  shows "\<forall>x\<in>set (dict_get (ud_cart (add_to_cart_callback s ud pid)) []). 1 \<le> quantity x"
proof -
  have "\<forall>x\<in>set (update_first (\<lambda>item. product_id item = pid)
                    (\<lambda>item. item\<lparr>quantity := quantity item + dict_get (current_quantity ud) 1\<rparr>)
                    (dict_get (ud_cart ud) [])). 1 \<le> quantity x"
    using assms by (intro update_first_set) simp_all
  with assms show ?thesis
    by (simp add: add_to_cart_callback_def Let_def split: option.splits)
      (simp add: dict_get_def)
qed

text \<open>The quantity selector keeps its value between 1 and 99.\<close>

lemma quantity_callback_range:
  assumes "1 \<le> dict_get (current_quantity ud) 1" and "dict_get (current_quantity ud) 1 \<le> 99"
  shows "1 \<le> dict_get (current_quantity (quantity_callback ud data)) 1
         \<and> dict_get (current_quantity (quantity_callback ud data)) 1 \<le> 99"
  using assms by (simp add: quantity_callback_def Let_def dict_get_def)

lemma cart_minus_removes_line:
  "ud_cart (cart_modify_callback (empty_session\<lparr>ud_cart := Some [sample_line 1 300 1]\<rparr>)
              ''cart_minus_1'' 1)
     = Some []"
  by (simp add: cart_modify_callback_def cart_change_def dict_get_def sample_line_def)

lemma add_to_cart_exceeds_cap:
  "ud_cart (add_to_cart_callback sample_store
              (empty_session\<lparr>ud_cart := Some [sample_line 1 300 99], current_quantity := Some 99\<rparr>) 1)
     = Some [sample_line 1 300 198]"
  by (simp add: add_to_cart_callback_def sample_get_product dict_get_def sample_line_def)

text \<open>
  Claim C10 says that every cart operation keeps each line's quantity at 1 or more and at
  99 or less, and that a line whose quantity is lowered to 0 is removed. The lemmas above
  prove the lower bound and the removal. The upper bound fails: the quantity selector of
  the product page stops at 99 (\<open>quantity_callback_range\<close>), but the plus button of the
  cart adds 1 to any quantity, and adding a product that is in the cart already adds the
  selected quantity to the line. On a line of quantity 99 the plus button gives 100.
\<close>

theorem cart_plus_exceeds_cap:
  "ud_cart (cart_modify_callback (empty_session\<lparr>ud_cart := Some [sample_line 1 300 99]\<rparr>)
              ''cart_plus_1'' 1)
     = Some [sample_line 1 300 100]"
  by (simp add: cart_modify_callback_def cart_change_def dict_get_def sample_line_def)

section \<open>Promo code redemption: properties\<close>

lemma create_order_promocodes: "promocodes (snd (create_order now s order_data)) = promocodes s"
  by (simp add: create_order_def Let_def update_statistics_def update_user_def
      add_bonus_points_def get_user_def split: option.splits)

text \<open>A payment increments the counter of the session's promo code once.\<close>

lemma payment_method_callback_promocodes:
  "promocodes (fst (snd (payment_method_callback now s ud uid data)))
     = (case ud_promo_code ud of
          None \<Rightarrow> promocodes s
        | Some c \<Rightarrow>
            if c = [] then promocodes s
            else update_first (\<lambda>p. py_upper (code p) = py_upper c)
                   (\<lambda>p. p\<lparr>current_uses := Some (dict_get (current_uses p) 0 + 1)\<rparr>)
                   (promocodes s))"
  by (simp add: payment_method_callback_def Let_def use_promocode_def create_order_promocodes
      split: option.splits)

lemma upper_once: "py_upper ''ONCE'' = ''ONCE''" "py_upper ''once'' = ''ONCE''"
  by (simp_all add: py_upper_def upper_char_def)

lemma strip_once: "py_strip '' once '' = ''once''"
  by (simp add: py_strip_def is_space_def)

lemma once_store_check:
  "check_promocode sample_now once_store ''ONCE'' 900
     = Inr (Some (sample_promo ''ONCE'' (Some 1) (Some 0)))"
  by (simp add: check_promocode_def once_store_def upper_once strptime_2030 sample_now_def
      dict_get_def)

lemma once_store_receive:
  "receive_promocode sample_now once_store checkout_session '' once '' = Inr applied_session"
  by (simp add: receive_promocode_def strip_once upper_once checkout_session_def once_store_check
      applied_session_def calculate_discount_def truthy_def dict_get_def empty_session_def
      Let_def sample_promo_def)

text \<open>
  A redemption that follows its validation with no other redemption in between keeps the
  counter within the cap.
\<close>

lemma validated_redemption_keeps_cap:
  assumes "distinct (map (\<lambda>p. py_upper (code p)) (promocodes s))"
    and "check_promocode now s c t = Inr (Some p)"
    and "max_uses p = Some m"
  shows "get_promocode (use_promocode s c) c
           = Some (p\<lparr>current_uses := Some (dict_get (current_uses p) 0 + 1)\<rparr>)
         \<and> dict_get (current_uses p) 0 + 1 \<le> m"
proof -
  from assms(2) have g: "get_promocode s c = Some p"
    unfolding check_promocode_unfold [OF assms(1)]
    by (auto split: option.splits if_splits)
  with assms(2,3) have "dict_get (current_uses p) 0 < m"
    unfolding check_promocode_unfold [OF assms(1)]
    by (auto split: option.splits if_splits)
  moreover have "get_promocode (use_promocode s c) c
      = map_option (\<lambda>p. p\<lparr>current_uses := Some (dict_get (current_uses p) 0 + 1)\<rparr>)
          (get_promocode s c)"
    by (simp add: get_promocode_def use_promocode_def find_update_first)
  ultimately show ?thesis using g by simp
qed

text \<open>
  Claim C9 says that the usage counter of a capped promo code never exceeds the cap over
  any sequence of validations at checkout and redemptions after order creation, each
  redemption adding exactly 1. Each redemption does add exactly 1
  (\<open>payment_method_callback_promocodes\<close>), but the cap is checked only when the code is
  entered, not when the order is paid. Two customers enter the code \<^verbatim>\<open>ONCE\<close>, capped at
  one use, while its counter is 0; both validations succeed; both then pay: the counter
  ends at 2.
\<close>

theorem promo_cap_exceeded:
  "receive_promocode sample_now once_store checkout_session '' once '' = Inr applied_session
   \<and> promocodes (fst (snd (payment_method_callback ''2025-06-01 12:05:00''
          (fst (snd (payment_method_callback ''2025-06-01 12:04:00'' once_store
                        applied_session 7 ''pay_cash'')))
          applied_session 8 ''pay_cash'')))
       = [sample_promo ''ONCE'' (Some 1) (Some 2)]"
proof
  show "receive_promocode sample_now once_store checkout_session '' once '' = Inr applied_session"
    by (rule once_store_receive)
next
  have "ud_promo_code applied_session = Some ''ONCE''"
    by (simp add: applied_session_def)
  then show "promocodes (fst (snd (payment_method_callback ''2025-06-01 12:05:00''
          (fst (snd (payment_method_callback ''2025-06-01 12:04:00'' once_store
                        applied_session 7 ''pay_cash'')))
          applied_session 8 ''pay_cash'')))
       = [sample_promo ''ONCE'' (Some 1) (Some 2)]"
    by (simp add: payment_method_callback_promocodes once_store_def upper_once sample_promo_def
        dict_get_def)
qed

end
